theory Spec2Isabelle
  imports Main "HOL-Library.Word"
begin

unbundle bit_operations_syntax

section \<open>Data model of BaseTile.cpp\<close>

text \<open>
  Pointers are addresses; a pointer that may be null is an \<open>option\<close>, with \<open>None\<close> for
  the null pointer. \<open>this\<close> is passed explicitly wherever the source compares a pointer
  with it.
\<close>

type_synonym tile_ref = nat
type_synonym texture_ref = nat
type_synonym page_ref = nat

text \<open>
  A C \<open>int\<close> is a 32-bit word read in two's complement: the source only copies and
  compares picture counts, so the comparisons are the signed ones (\<open><s\<close>, \<open>\<le>s\<close>).
\<close>

type_synonym int32 = "32 word"

text \<open>
  A C \<open>float\<close> is its IEEE-754 binary32 bit pattern. The tile itself only stores the
  scale and compares it with \<open>!=\<close>; that comparison is \<open>float_ne\<close>: a NaN differs from
  everything, the two zeros are equal, every other value is equal to itself only.
\<close>

type_synonym float = "32 word"

definition float_isnan :: "float \<Rightarrow> bool" where
  "float_isnan f = (0x7F800000 < (f AND 0x7FFFFFFF))"

definition float_iszero :: "float \<Rightarrow> bool" where
  "float_iszero f = (f AND 0x7FFFFFFF = 0)"

definition float_ne :: "float \<Rightarrow> float \<Rightarrow> bool" where
  "float_ne a b =
     (float_isnan a \<or> float_isnan b \<or> (a \<noteq> b \<and> \<not> (float_iszero a \<and> float_iszero b)))"

definition float_one :: float where
  "float_one = 0x3F800000"

text \<open>
  The collaborators' types are declared outside BaseTile.cpp; only the members this file
  reads are kept. \<open>TextureInfo\<close> is what the texture's locks hand out, \<open>SkRect\<close> is
  the rectangle passed through to the shader.
\<close>

record TextureInfo =
  m_textureId :: "32 word"
  m_width :: int32
  m_height :: int32

record SkRect =
  fLeft :: float
  fTop :: float
  fRight :: float
  fBottom :: float

text \<open>
  What a \<open>BackedDoubleBufferedTexture\<close> answers when the tile asks: \<open>owner()\<close>,
  \<open>usedLevel()\<close>, the result of \<open>consumerLock()\<close> (null when the surface is not
  available) and the result of \<open>producerLock()\<close>. The store of all textures belongs to
  the pool; every operation that dereferences a texture takes the store as it is at the
  time of the call.
\<close>

record BackedDoubleBufferedTexture =
  owner :: "tile_ref option"
  usedLevel :: int32
  consumerLock :: "TextureInfo option"
  producerLock :: TextureInfo

type_synonym textures = "texture_ref \<Rightarrow> BackedDoubleBufferedTexture"

text \<open>The members of \<open>BaseTile\<close> (the mutex \<open>m_atomicSync\<close> holds no data).\<close>

record BaseTile =
  m_page :: page_ref
  m_x :: int32
  m_y :: int32
  m_texture :: "texture_ref option"
  m_scale :: float
  m_dirty :: bool
  m_lastDirtyPicture :: int32
  m_lastPaintedPicture :: int32

text \<open>
  Calls that leave the tile are recorded, in order, as events. The canvas calls of
  \<open>paintBitmap\<close> take floating-point arguments computed from the scale and the texture
  size (\<open>-x * w\<close>, \<open>-y * h\<close> with \<open>w = tileWidth * (1 / scale)\<close>); the event of
  \<open>translate\<close> records the operands of that computation, not its result.
\<close>

datatype event =
    TexSetUsedLevel texture_ref int32
  | ConsumerLock texture_ref
  | ConsumerRelease texture_ref
  | DrawQuad SkRect "32 word" float
  | ProducerLock texture_ref
  | ProducerRelease texture_ref
  | CanvasSave texture_ref
  | CanvasScale texture_ref float float
  | CanvasTranslate texture_ref int32 int32 int32 int32 float
  | PaintBaseLayerContent page_ref texture_ref
  | CanvasRestore texture_ref
  | ProducerUpdate texture_ref TextureInfo

section \<open>Operations\<close>

text \<open>The constructor \<open>BaseTile::BaseTile(page, x, y)\<close>.\<close>

definition BaseTile_new :: "page_ref \<Rightarrow> int32 \<Rightarrow> int32 \<Rightarrow> BaseTile" where
  "BaseTile_new page x y =
     \<lparr> m_page = page, m_x = x, m_y = y, m_texture = None, m_scale = float_one,
       m_dirty = True, m_lastDirtyPicture = 0, m_lastPaintedPicture = 0 \<rparr>"

text \<open>
  \<open>reserveTexture\<close>: the first argument is what
  \<open>TilesManager::instance()->getAvailableTexture(this)\<close> returned.
\<close>

definition reserveTexture :: "texture_ref option \<Rightarrow> BaseTile \<Rightarrow> BaseTile" where
  "reserveTexture texture t =
     (let t1 = (if m_texture t \<noteq> texture
                then t\<lparr> m_lastPaintedPicture := 0, m_dirty := True \<rparr>
                else t)
      in t1\<lparr> m_texture := texture \<rparr>)"

definition removeTexture :: "BaseTile \<Rightarrow> BaseTile" where
  "removeTexture t = t\<lparr> m_texture := None \<rparr>"

definition setScale :: "float \<Rightarrow> BaseTile \<Rightarrow> BaseTile" where
  "setScale scale t =
     (let t1 = (if float_ne (m_scale t) scale then t\<lparr> m_dirty := True \<rparr> else t)
      in t1\<lparr> m_scale := scale \<rparr>)"

definition markAsDirty :: "int32 \<Rightarrow> BaseTile \<Rightarrow> BaseTile" where
  "markAsDirty pictureCount t =
     (let t1 = t\<lparr> m_lastDirtyPicture := pictureCount \<rparr>
      in if m_lastPaintedPicture t1 <s m_lastDirtyPicture t1
         then t1\<lparr> m_dirty := True \<rparr>
         else t1)"

definition isDirty :: "BaseTile \<Rightarrow> bool" where
  "isDirty t = m_dirty t"

definition setUsedLevel :: "int32 \<Rightarrow> BaseTile \<Rightarrow> event list" where
  "setUsedLevel level t =
     (case m_texture t of
        None \<Rightarrow> []
      | Some texture \<Rightarrow> [TexSetUsedLevel texture level])"

text \<open>The destructor \<open>BaseTile::~BaseTile()\<close>.\<close>

definition BaseTile_delete :: "BaseTile \<Rightarrow> event list" where
  "BaseTile_delete t = setUsedLevel (- 1) t"

definition draw :: "textures \<Rightarrow> float \<Rightarrow> SkRect \<Rightarrow> BaseTile \<Rightarrow> event list" where
  "draw texs transparency rect t =
     (case m_texture t of
        None \<Rightarrow> []
      | Some texture \<Rightarrow>
          (case consumerLock (texs texture) of
             None \<Rightarrow> [ConsumerLock texture, ConsumerRelease texture]
           | Some textureInfo \<Rightarrow>
               (let isTexturePainted = (m_lastPaintedPicture t \<noteq> 0)
                in [ConsumerLock texture]
                   @ (if isTexturePainted
                      then [DrawQuad rect (m_textureId textureInfo) transparency]
                      else [])
                   @ [ConsumerRelease texture])))"

definition isTileReady :: "tile_ref \<Rightarrow> textures \<Rightarrow> BaseTile \<Rightarrow> bool" where
  "isTileReady this texs t =
     (case m_texture t of
        None \<Rightarrow> False
      | Some texture \<Rightarrow>
          if owner (texs texture) \<noteq> Some this then False
          else \<not> m_dirty t)"

text \<open>
  \<open>paintBitmap\<close> has two critical sections under \<open>m_atomicSync\<close>: the snapshot at its
  start and the commit at its end.
\<close>

definition paintBitmap_snapshot :: "BaseTile \<Rightarrow> bool \<times> texture_ref option \<times> float" where
  "paintBitmap_snapshot t = (m_dirty t, m_texture t, m_scale t)"

definition paintBitmap_commit :: "int32 \<Rightarrow> BaseTile \<Rightarrow> BaseTile" where
  "paintBitmap_commit pictureCount t =
     (let t1 = t\<lparr> m_lastPaintedPicture := pictureCount \<rparr>
      in if m_lastDirtyPicture t1 \<le>s m_lastPaintedPicture t1
         then t1\<lparr> m_dirty := False \<rparr>
         else t1)"

text \<open>
  What happens between producerLock and producerUpdate when the paint goes ahead
  (the build without DEBUG).
\<close>

definition paintBitmap_events ::
  "BaseTile \<Rightarrow> texture_ref \<Rightarrow> float \<Rightarrow> TextureInfo \<Rightarrow> event list" where
  "paintBitmap_events t texture scale textureInfo =
     [ProducerLock texture,
      CanvasSave texture,
      CanvasScale texture scale scale,
      CanvasTranslate texture (m_x t) (m_y t) (m_width textureInfo) (m_height textureInfo) scale,
      PaintBaseLayerContent (m_page t) texture,
      CanvasRestore texture,
      ProducerUpdate texture textureInfo]"

text \<open>
  \<open>paintBitmap\<close> run with nothing else touching the tile in between; \<open>pictureCount\<close> is
  what \<open>tiledPage->paintBaseLayerContent(canvas)\<close> returns.
\<close>

definition paintBitmap ::
  "tile_ref \<Rightarrow> textures \<Rightarrow> int32 \<Rightarrow> BaseTile \<Rightarrow> BaseTile \<times> event list" where
  "paintBitmap this texs pictureCount t =
     (case paintBitmap_snapshot t of (dirty, texture_opt, scale) \<Rightarrow>
        if \<not> dirty \<or> texture_opt = None then (t, [])
        else (case texture_opt of
                None \<Rightarrow> (t, [])
              | Some texture \<Rightarrow>
                  (let textureInfo = producerLock (texs texture)
                   in if owner (texs texture) \<noteq> Some this \<or> 1 <s usedLevel (texs texture)
                      then (t, [ProducerLock texture, ProducerRelease texture])
                      else (paintBitmap_commit pictureCount t,
                            paintBitmap_events t texture scale textureInfo))))"

section \<open>Sequences of operations\<close>

text \<open>
  One call on the tile, with what the outside world supplies to it: the texture the pool
  returns, the texture store as it is during the call, the picture count the page reports.
\<close>

datatype tile_op =
    ReserveTexture "texture_ref option"
  | RemoveTexture
  | SetScale float
  | MarkAsDirty int32
  | IsDirty
  | SetUsedLevel int32
  | Draw textures float SkRect
  | IsTileReady textures
  | PaintBitmap textures int32

fun step :: "tile_ref \<Rightarrow> tile_op \<Rightarrow> BaseTile \<Rightarrow> BaseTile" where
  "step this (ReserveTexture texture) t = reserveTexture texture t"
| "step this RemoveTexture t = removeTexture t"
| "step this (SetScale scale) t = setScale scale t"
| "step this (MarkAsDirty pictureCount) t = markAsDirty pictureCount t"
| "step this IsDirty t = t"
| "step this (SetUsedLevel level) t = t"
| "step this (Draw texs transparency rect) t = t"
| "step this (IsTileReady texs) t = t"
| "step this (PaintBitmap texs pictureCount) t = fst (paintBitmap this texs pictureCount t)"

fun run :: "tile_ref \<Rightarrow> tile_op list \<Rightarrow> BaseTile \<Rightarrow> BaseTile" where
  "run this [] t = t"
| "run this (op # ops) t = run this ops (step this op t)"

text \<open>
  \<open>paintBitmap\<close> on the texture generation thread while the main thread runs \<open>mid\<close> on
  the same tile after the snapshot has been taken and before the commit: \<open>paintBitmap\<close>
  touches the tile's mutable members under \<open>m_atomicSync\<close> only, and so does every
  write by the main thread, so the other thread's calls fall between the two critical
  sections.
\<close>

definition paintBitmap_interleaved ::
  "tile_ref \<Rightarrow> textures \<Rightarrow> int32 \<Rightarrow> tile_op list \<Rightarrow> BaseTile \<Rightarrow> BaseTile" where
  "paintBitmap_interleaved this texs pictureCount mid t =
     (case paintBitmap_snapshot t of (dirty, texture_opt, scale) \<Rightarrow>
        if \<not> dirty \<or> texture_opt = None then run this mid t
        else (case texture_opt of
                None \<Rightarrow> run this mid t
              | Some texture \<Rightarrow>
                  if owner (texs texture) \<noteq> Some this \<or> 1 <s usedLevel (texs texture)
                  then run this mid t
                  else paintBitmap_commit pictureCount (run this mid t)))"

text \<open>The invariant tying the dirty flag to the two picture counts.\<close>

definition dirty_invariant :: "BaseTile \<Rightarrow> bool" where
  "dirty_invariant t = (m_lastPaintedPicture t <s m_lastDirtyPicture t \<longrightarrow> m_dirty t)"

text \<open>Whether an event is a quad handed to the shader.\<close>

fun is_DrawQuad :: "event \<Rightarrow> bool" where
  "is_DrawQuad (DrawQuad rect textureId transparency) = True"
| "is_DrawQuad _ = False"

text \<open>
  The highest picture count of a non-empty sequence \<open>g # gs\<close>, in the signed order the
  source compares picture counts with.
\<close>

definition smax :: "int32 \<Rightarrow> int32 \<Rightarrow> int32" where
  "smax a b = (if a <s b then b else a)"

definition highest :: "int32 \<Rightarrow> int32 list \<Rightarrow> int32" where
  "highest g gs = fold smax gs g"

text \<open>The arguments of the \<open>markAsDirty\<close> calls of a sequence of operations, in order.\<close>

fun dirty_args :: "tile_op list \<Rightarrow> int32 list" where
  "dirty_args [] = []"
| "dirty_args (MarkAsDirty g # ops) = g # dirty_args ops"
| "dirty_args (op # ops) = dirty_args ops"

text \<open>Whether an operation is a call of \<open>paintBitmap\<close> (the texture generation thread).\<close>

fun is_PaintBitmap :: "tile_op \<Rightarrow> bool" where
  "is_PaintBitmap (PaintBitmap texs pictureCount) = True"
| "is_PaintBitmap _ = False"

text \<open>A texture store for the examples: every texture is owned by tile 7 and is visible.\<close>

definition tex1 :: textures where
  "tex1 = (\<lambda>_. \<lparr> owner = Some 7, usedLevel = 0, consumerLock = None,
                  producerLock = \<lparr> m_textureId = 1, m_width = 256, m_height = 256 \<rparr> \<rparr>)"

text \<open>The same store after the pool has handed the textures to tile 8.\<close>

definition tex2 :: textures where
  "tex2 = (\<lambda>_. \<lparr> owner = Some 8, usedLevel = 0,
                  consumerLock = Some \<lparr> m_textureId = 1, m_width = 256, m_height = 256 \<rparr>,
                  producerLock = \<lparr> m_textureId = 1, m_width = 256, m_height = 256 \<rparr> \<rparr>)"

text \<open>The store when tile 7 owns the textures but they are in use above level 1.\<close>

definition tex3 :: textures where
  "tex3 = (\<lambda>_. \<lparr> owner = Some 7, usedLevel = 2, consumerLock = None,
                  producerLock = \<lparr> m_textureId = 1, m_width = 256, m_height = 256 \<rparr> \<rparr>)"

text \<open>Tile 7 after it got texture 1, was invalidated at picture 5 and painted picture 5.\<close>

definition tile_painted :: BaseTile where
  "tile_painted =
     run 7 [ReserveTexture (Some 1), MarkAsDirty 5, PaintBitmap tex1 5] (BaseTile_new 0 0 0)"

definition rect1 :: SkRect where
  "rect1 = \<lparr> fLeft = 0, fTop = 0, fRight = 0x43800000, fBottom = 0x43800000 \<rparr>"

section \<open>Signed comparison\<close>

lemmas scmp = word_sless_alt word_sle_eq


section \<open>markAsDirty\<close>

lemma markAsDirty_eq:
  "markAsDirty g t =
     t\<lparr> m_lastDirtyPicture := g, m_dirty := (m_dirty t \<or> m_lastPaintedPicture t <s g) \<rparr>"
  by (cases "m_lastPaintedPicture t <s g") (simp_all add: markAsDirty_def)

text \<open>
  C3. For every generation \<open>g\<close> and every tile state, \<open>markAsDirty g\<close> stores \<open>g\<close> into
  \<open>m_lastDirtyPicture\<close> whatever the stored value was (also when \<open>g\<close> is lower), sets
  \<open>m_dirty\<close> if \<open>m_lastPaintedPicture < g\<close>, never turns \<open>m_dirty\<close> from true to
  false, and leaves every other member as it was.
\<close>

theorem markAsDirty_spec:
  "m_lastDirtyPicture (markAsDirty g t) = g
   \<and> (m_lastPaintedPicture t <s g \<longrightarrow> m_dirty (markAsDirty g t))
   \<and> (m_dirty t \<longrightarrow> m_dirty (markAsDirty g t))
   \<and> (m_dirty (markAsDirty g t) \<longleftrightarrow> m_dirty t \<or> m_lastPaintedPicture t <s g)
   \<and> (markAsDirty g t)\<lparr> m_lastDirtyPicture := m_lastDirtyPicture t, m_dirty := m_dirty t \<rparr> = t"
  by (simp add: markAsDirty_eq)

theorem markAsDirty_spec_witness:
  "m_lastDirtyPicture (markAsDirty 3 (markAsDirty 5 (BaseTile_new 0 0 0))) = 3
   \<and> m_dirty (markAsDirty 3 (markAsDirty 5 (BaseTile_new 0 0 0)))
   \<and> m_lastPaintedPicture (markAsDirty 5 (BaseTile_new 0 0 0)) <s 5
   \<and> m_dirty (markAsDirty 5 (BaseTile_new 0 0 0))"
  using markAsDirty_spec [of 3 "markAsDirty 5 (BaseTile_new 0 0 0)"]
    markAsDirty_spec [of 5 "BaseTile_new 0 0 0"]
  by (simp add: BaseTile_new_def markAsDirty_def Let_def word_sless_alt word_sle_eq)

section \<open>Evaluating the examples\<close>

lemmas tile_defs =
  BaseTile_new_def reserveTexture_def removeTexture_def setScale_def markAsDirty_def
  isDirty_def isTileReady_def draw_def paintBitmap_def paintBitmap_snapshot_def
  paintBitmap_commit_def paintBitmap_events_def paintBitmap_interleaved_def
  tex1_def tex2_def tex3_def rect1_def Let_def

lemma tile_painted_eq:
  "tile_painted =
     \<lparr> m_page = 0, m_x = 0, m_y = 0, m_texture = Some 1, m_scale = float_one,
       m_dirty = False, m_lastDirtyPicture = 5, m_lastPaintedPicture = 5 \<rparr>"
  by (simp add: tile_painted_def tile_defs scmp)

section \<open>The constructor\<close>

text \<open>
  C10. A freshly constructed tile has \<open>m_dirty\<close> true, both picture counts 0, scale 1 and
  no texture; so, before anything else is called, \<open>isDirty\<close> is true, \<open>isTileReady\<close> is
  false, \<open>draw\<close> does nothing and \<open>paintBitmap\<close> does nothing (dirty, but no texture).
\<close>

theorem BaseTile_new_spec:
  "m_dirty (BaseTile_new page x y)
   \<and> m_lastDirtyPicture (BaseTile_new page x y) = 0
   \<and> m_lastPaintedPicture (BaseTile_new page x y) = 0
   \<and> m_scale (BaseTile_new page x y) = float_one
   \<and> m_texture (BaseTile_new page x y) = None
   \<and> isDirty (BaseTile_new page x y)
   \<and> \<not> isTileReady this texs (BaseTile_new page x y)
   \<and> draw texs transparency rect (BaseTile_new page x y) = []
   \<and> paintBitmap this texs pictureCount (BaseTile_new page x y) = (BaseTile_new page x y, [])"
  by (simp add: BaseTile_new_def isDirty_def isTileReady_def draw_def paintBitmap_def
      paintBitmap_snapshot_def)

theorem BaseTile_new_spec_witness:
  "isDirty (BaseTile_new 3 1 2)
   \<and> \<not> isTileReady 7 tex1 (BaseTile_new 3 1 2)
   \<and> draw tex2 0x3F000000 rect1 (BaseTile_new 3 1 2) = []
   \<and> paintBitmap 7 tex1 4 (BaseTile_new 3 1 2) = (BaseTile_new 3 1 2, [])"
  using BaseTile_new_spec [of 3 1 2 7 tex2 "0x3F000000" rect1 4]
    BaseTile_new_spec [of 3 1 2 7 tex1 "0x3F000000" rect1 4]
  by simp

section \<open>reserveTexture\<close>

lemma reserveTexture_same: "m_texture t = texture \<Longrightarrow> reserveTexture texture t = t"
  by (simp add: reserveTexture_def)

lemma reserveTexture_other:
  "m_texture t \<noteq> texture \<Longrightarrow>
     reserveTexture texture t =
       t\<lparr> m_lastPaintedPicture := 0, m_dirty := True, m_texture := texture \<rparr>"
  by (simp add: reserveTexture_def)

text \<open>
  C5. \<open>reserveTexture\<close> makes the tile refer to the texture the pool returned. If that
  texture is not the one held before (also when none was held), \<open>m_lastPaintedPicture\<close>
  becomes 0 and \<open>m_dirty\<close> true, so \<open>isDirty\<close> is true and \<open>isTileReady\<close> false
  afterwards. If the pool returns the texture already held, the dirty flag and both
  picture counts (indeed the whole tile) stay as they were.
\<close>

theorem reserveTexture_spec:
  "m_texture (reserveTexture texture t) = texture
   \<and> (m_texture t \<noteq> texture \<longrightarrow>
        m_lastPaintedPicture (reserveTexture texture t) = 0
        \<and> m_dirty (reserveTexture texture t)
        \<and> isDirty (reserveTexture texture t)
        \<and> \<not> isTileReady this texs (reserveTexture texture t))
   \<and> (m_texture t = texture \<longrightarrow>
        m_dirty (reserveTexture texture t) = m_dirty t
        \<and> m_lastDirtyPicture (reserveTexture texture t) = m_lastDirtyPicture t
        \<and> m_lastPaintedPicture (reserveTexture texture t) = m_lastPaintedPicture t
        \<and> reserveTexture texture t = t)"
proof (cases "m_texture t = texture")
  case True
  then show ?thesis by (simp add: reserveTexture_same)
next
  case False
  then show ?thesis
    by (simp add: reserveTexture_other isDirty_def isTileReady_def split: option.split)
qed

theorem reserveTexture_spec_witness:
  "m_texture tile_painted \<noteq> Some 2
   \<and> \<not> m_dirty tile_painted
   \<and> m_lastPaintedPicture tile_painted = 5
   \<and> m_texture (reserveTexture (Some 2) tile_painted) = Some 2
   \<and> m_lastPaintedPicture (reserveTexture (Some 2) tile_painted) = 0
   \<and> isDirty (reserveTexture (Some 2) tile_painted)
   \<and> \<not> isTileReady 7 tex1 (reserveTexture (Some 2) tile_painted)
   \<and> m_texture tile_painted = Some 1
   \<and> reserveTexture (Some 1) tile_painted = tile_painted"
  using reserveTexture_spec [of "Some 2" tile_painted 7 tex1]
    reserveTexture_spec [of "Some 1" tile_painted 7 tex1]
  by (simp add: tile_painted_eq)

section \<open>isTileReady\<close>

text \<open>
  C7. \<open>isTileReady\<close> is false when the tile has no texture, false when the texture it
  holds records another owner (whatever the dirty flag), and otherwise the negation of
  the dirty flag; the call leaves the tile as it was.
\<close>

theorem isTileReady_spec:
  "(m_texture t = None \<longrightarrow> \<not> isTileReady this texs t)
   \<and> (\<forall>texture. m_texture t = Some texture \<and> owner (texs texture) \<noteq> Some this
         \<longrightarrow> \<not> isTileReady this texs t)
   \<and> (\<forall>texture. m_texture t = Some texture \<and> owner (texs texture) = Some this
         \<longrightarrow> isTileReady this texs t = (\<not> m_dirty t))
   \<and> step this (IsTileReady texs) t = t"
  by (simp add: isTileReady_def)

theorem isTileReady_spec_witness:
  "m_texture (BaseTile_new 0 0 0) = None
   \<and> \<not> isTileReady 7 tex1 (BaseTile_new 0 0 0)
   \<and> m_texture tile_painted = Some 1
   \<and> owner (tex2 1) \<noteq> Some 7
   \<and> \<not> m_dirty tile_painted
   \<and> \<not> isTileReady 7 tex2 tile_painted
   \<and> owner (tex1 1) = Some 7
   \<and> isTileReady 7 tex1 tile_painted
   \<and> \<not> isTileReady 7 tex1 (markAsDirty 9 tile_painted)
   \<and> step 7 (IsTileReady tex1) tile_painted = tile_painted"
  using isTileReady_spec [of "BaseTile_new 0 0 0" 7 tex1]
    isTileReady_spec [of tile_painted 7 tex2]
    isTileReady_spec [of tile_painted 7 tex1]
    isTileReady_spec [of "markAsDirty 9 tile_painted" 7 tex1]
  by (simp add: tile_painted_eq tile_defs scmp)

section \<open>draw\<close>

text \<open>
  C8. \<open>draw\<close> hands no quad to the shader while \<open>m_lastPaintedPicture\<close> is still 0. It
  does nothing when the tile has no texture; when the consumer lock reports no surface
  it releases the lock and returns without drawing. A quad is drawn exactly when the
  texture is there, the consumer lock yields a surface and \<open>m_lastPaintedPicture\<close> is
  not 0; the consumer lock is then released after the quad.
\<close>

theorem draw_spec:
  "(m_lastPaintedPicture t = 0 \<longrightarrow> \<not> list_ex is_DrawQuad (draw texs transparency rect t))
   \<and> (m_texture t = None \<longrightarrow> draw texs transparency rect t = [])
   \<and> (\<forall>texture. m_texture t = Some texture \<and> consumerLock (texs texture) = None
         \<longrightarrow> draw texs transparency rect t = [ConsumerLock texture, ConsumerRelease texture])
   \<and> (list_ex is_DrawQuad (draw texs transparency rect t)
        \<longleftrightarrow> (\<exists>texture textureInfo. m_texture t = Some texture
               \<and> consumerLock (texs texture) = Some textureInfo
               \<and> m_lastPaintedPicture t \<noteq> 0))
   \<and> (\<forall>texture textureInfo. m_texture t = Some texture
         \<and> consumerLock (texs texture) = Some textureInfo \<and> m_lastPaintedPicture t \<noteq> 0
         \<longrightarrow> draw texs transparency rect t =
               [ConsumerLock texture, DrawQuad rect (m_textureId textureInfo) transparency,
                ConsumerRelease texture])"
  by (auto simp add: draw_def split: option.split)

theorem draw_spec_witness:
  "m_lastPaintedPicture (reserveTexture (Some 1) (BaseTile_new 0 0 0)) = 0
   \<and> \<not> list_ex is_DrawQuad
         (draw tex2 0x3F000000 rect1 (reserveTexture (Some 1) (BaseTile_new 0 0 0)))
   \<and> draw tex2 0x3F000000 rect1 (removeTexture tile_painted) = []
   \<and> consumerLock (tex1 1) = None
   \<and> draw tex1 0x3F000000 rect1 tile_painted = [ConsumerLock 1, ConsumerRelease 1]
   \<and> m_lastPaintedPicture tile_painted \<noteq> 0
   \<and> draw tex2 0x3F000000 rect1 tile_painted =
        [ConsumerLock 1, DrawQuad rect1 1 0x3F000000, ConsumerRelease 1]"
  using draw_spec [of "reserveTexture (Some 1) (BaseTile_new 0 0 0)" tex2 "0x3F000000" rect1]
    draw_spec [of "removeTexture tile_painted" tex2 "0x3F000000" rect1]
    draw_spec [of tile_painted tex1 "0x3F000000" rect1]
    draw_spec [of tile_painted tex2 "0x3F000000" rect1]
  by (simp add: tile_painted_eq tile_defs)

section \<open>paintBitmap\<close>

lemma paintBitmap_noop:
  "\<not> m_dirty t \<or> m_texture t = None \<Longrightarrow> paintBitmap this texs g t = (t, [])"
  by (auto simp add: paintBitmap_def paintBitmap_snapshot_def)

lemma paintBitmap_abandon:
  "m_dirty t \<Longrightarrow> m_texture t = Some texture \<Longrightarrow>
   owner (texs texture) \<noteq> Some this \<or> 1 <s usedLevel (texs texture) \<Longrightarrow>
   paintBitmap this texs g t = (t, [ProducerLock texture, ProducerRelease texture])"
  by (auto simp add: paintBitmap_def paintBitmap_snapshot_def)

lemma paintBitmap_paints:
  "m_dirty t \<Longrightarrow> m_texture t = Some texture \<Longrightarrow>
   owner (texs texture) = Some this \<Longrightarrow> usedLevel (texs texture) \<le>s 1 \<Longrightarrow>
   paintBitmap this texs g t =
     (paintBitmap_commit g t,
      paintBitmap_events t texture (m_scale t) (producerLock (texs texture)))"
  by (auto simp add: paintBitmap_def paintBitmap_snapshot_def scmp)

lemma paintBitmap_commit_dirty:
  "m_dirty (paintBitmap_commit g t) = (m_dirty t \<and> \<not> m_lastDirtyPicture t \<le>s g)"
  by (simp add: paintBitmap_commit_def Let_def)

lemma paintBitmap_commit_fields:
  "m_lastPaintedPicture (paintBitmap_commit g t) = g"
  "m_lastDirtyPicture (paintBitmap_commit g t) = m_lastDirtyPicture t"
  "m_texture (paintBitmap_commit g t) = m_texture t"
  "m_scale (paintBitmap_commit g t) = m_scale t"
  by (simp_all add: paintBitmap_commit_def Let_def)

lemma paintBitmap_cases:
  "fst (paintBitmap this texs g t) = t
   \<or> (m_dirty t \<and> fst (paintBitmap this texs g t) = paintBitmap_commit g t)"
  by (auto simp add: paintBitmap_def paintBitmap_snapshot_def split: option.split)

text \<open>
  C6. On every exit of \<open>paintBitmap\<close> that does not paint, the tile (texture, scale,
  dirty flag, both picture counts) is as before: when the snapshot shows the tile clean
  or without a texture nothing at all happens; when, after the producer lock was taken,
  the texture's owner is another tile or its used level is above 1, the producer lock is
  released, no painted picture is recorded and the tile stays dirty.
\<close>

theorem paintBitmap_no_paint:
  "(\<not> m_dirty t \<or> m_texture t = None \<longrightarrow> paintBitmap this texs g t = (t, []))
   \<and> (\<forall>texture. m_dirty t \<and> m_texture t = Some texture
         \<and> (owner (texs texture) \<noteq> Some this \<or> 1 <s usedLevel (texs texture))
         \<longrightarrow> paintBitmap this texs g t = (t, [ProducerLock texture, ProducerRelease texture])
             \<and> m_dirty (fst (paintBitmap this texs g t))
             \<and> m_lastPaintedPicture (fst (paintBitmap this texs g t)) = m_lastPaintedPicture t)"
  using paintBitmap_noop [of t this texs g] paintBitmap_abandon [of t _ texs this g]
  by auto

theorem paintBitmap_no_paint_witness:
  "\<not> m_dirty tile_painted
   \<and> paintBitmap 7 tex1 6 tile_painted = (tile_painted, [])
   \<and> m_texture (removeTexture (markAsDirty 9 tile_painted)) = None
   \<and> paintBitmap 7 tex1 9 (removeTexture (markAsDirty 9 tile_painted))
       = (removeTexture (markAsDirty 9 tile_painted), [])
   \<and> m_dirty (markAsDirty 9 tile_painted)
   \<and> m_texture (markAsDirty 9 tile_painted) = Some 1
   \<and> owner (tex2 1) \<noteq> Some 7
   \<and> paintBitmap 7 tex2 9 (markAsDirty 9 tile_painted)
       = (markAsDirty 9 tile_painted, [ProducerLock 1, ProducerRelease 1])
   \<and> 1 <s usedLevel (tex3 1)
   \<and> paintBitmap 7 tex3 9 (markAsDirty 9 tile_painted)
       = (markAsDirty 9 tile_painted, [ProducerLock 1, ProducerRelease 1])"
  using paintBitmap_no_paint [of tile_painted 7 tex1 6]
    paintBitmap_no_paint [of "removeTexture (markAsDirty 9 tile_painted)" 7 tex1 9]
    paintBitmap_no_paint [of "markAsDirty 9 tile_painted" 7 tex2 9]
    paintBitmap_no_paint [of "markAsDirty 9 tile_painted" 7 tex3 9]
  by (simp add: tile_painted_eq tile_defs scmp)

section \<open>The dirty invariant\<close>

lemma dirty_invariant_new: "dirty_invariant (BaseTile_new page x y)"
  by (simp add: dirty_invariant_def BaseTile_new_def)

lemma dirty_invariant_reserveTexture:
  "dirty_invariant t \<Longrightarrow> dirty_invariant (reserveTexture texture t)"
  by (simp add: dirty_invariant_def reserveTexture_def Let_def)

lemma dirty_invariant_removeTexture:
  "dirty_invariant t \<Longrightarrow> dirty_invariant (removeTexture t)"
  by (simp add: dirty_invariant_def removeTexture_def)

lemma dirty_invariant_setScale:
  "dirty_invariant t \<Longrightarrow> dirty_invariant (setScale scale t)"
  by (simp add: dirty_invariant_def setScale_def Let_def)

lemma dirty_invariant_markAsDirty: "dirty_invariant (markAsDirty g t)"
  by (simp add: dirty_invariant_def markAsDirty_def Let_def)

lemma dirty_invariant_commit:
  "m_dirty t \<Longrightarrow> dirty_invariant (paintBitmap_commit g t)"
  by (simp add: dirty_invariant_def paintBitmap_commit_dirty paintBitmap_commit_fields scmp)

lemma dirty_invariant_paintBitmap:
  "dirty_invariant t \<Longrightarrow> dirty_invariant (fst (paintBitmap this texs g t))"
  using paintBitmap_cases [of this texs g t] by (auto simp add: dirty_invariant_commit)

lemma dirty_invariant_step:
  "dirty_invariant t \<Longrightarrow> dirty_invariant (step this op t)"
  by (cases op)
    (simp_all add: dirty_invariant_reserveTexture dirty_invariant_removeTexture
      dirty_invariant_setScale dirty_invariant_markAsDirty dirty_invariant_paintBitmap)

lemma dirty_invariant_run:
  "dirty_invariant t \<Longrightarrow> dirty_invariant (run this ops t)"
  by (induction ops arbitrary: t) (simp_all add: dirty_invariant_step)

text \<open>
  C1. In every state a tile reaches from its constructor by any sequence of operations run
  one after the other (\<open>reserveTexture\<close>, \<open>removeTexture\<close>, \<open>setScale\<close>,
  \<open>markAsDirty\<close>, \<open>paintBitmap\<close>, and the calls that only read), the dirty flag is true
  whenever \<open>m_lastPaintedPicture < m_lastDirtyPicture\<close>. The flag can also be true when
  \<open>m_lastPaintedPicture \<ge> m_lastDirtyPicture\<close>: such a state is reachable.
\<close>

theorem dirty_invariant_reachable:
  "(m_lastPaintedPicture (run this ops (BaseTile_new page x y))
      <s m_lastDirtyPicture (run this ops (BaseTile_new page x y))
    \<longrightarrow> m_dirty (run this ops (BaseTile_new page x y)))
   \<and> (\<exists>ops'. m_dirty (run this ops' (BaseTile_new page x y))
        \<and> m_lastDirtyPicture (run this ops' (BaseTile_new page x y))
            \<le>s m_lastPaintedPicture (run this ops' (BaseTile_new page x y)))"
proof
  have "dirty_invariant (run this ops (BaseTile_new page x y))"
    by (rule dirty_invariant_run) (rule dirty_invariant_new)
  then show "m_lastPaintedPicture (run this ops (BaseTile_new page x y))
      <s m_lastDirtyPicture (run this ops (BaseTile_new page x y))
    \<longrightarrow> m_dirty (run this ops (BaseTile_new page x y))"
    by (simp add: dirty_invariant_def)
next
  have "m_dirty (run this [] (BaseTile_new page x y))
        \<and> m_lastDirtyPicture (run this [] (BaseTile_new page x y))
            \<le>s m_lastPaintedPicture (run this [] (BaseTile_new page x y))"
    by (simp add: BaseTile_new_def)
  then show "\<exists>ops'. m_dirty (run this ops' (BaseTile_new page x y))
        \<and> m_lastDirtyPicture (run this ops' (BaseTile_new page x y))
            \<le>s m_lastPaintedPicture (run this ops' (BaseTile_new page x y))"
    by blast
qed

theorem dirty_invariant_reachable_witness:
  "m_lastPaintedPicture
       (run 7 [ReserveTexture (Some 1), MarkAsDirty 9, PaintBitmap tex1 5] (BaseTile_new 0 0 0))
     <s m_lastDirtyPicture
       (run 7 [ReserveTexture (Some 1), MarkAsDirty 9, PaintBitmap tex1 5] (BaseTile_new 0 0 0))
   \<and> m_dirty
       (run 7 [ReserveTexture (Some 1), MarkAsDirty 9, PaintBitmap tex1 5] (BaseTile_new 0 0 0))
   \<and> m_dirty
       (run 7 [ReserveTexture (Some 1), MarkAsDirty 5, PaintBitmap tex1 5, SetScale 0x40000000]
          (BaseTile_new 0 0 0))
   \<and> m_lastDirtyPicture
       (run 7 [ReserveTexture (Some 1), MarkAsDirty 5, PaintBitmap tex1 5, SetScale 0x40000000]
          (BaseTile_new 0 0 0))
     \<le>s m_lastPaintedPicture
       (run 7 [ReserveTexture (Some 1), MarkAsDirty 5, PaintBitmap tex1 5, SetScale 0x40000000]
          (BaseTile_new 0 0 0))"
  using dirty_invariant_reachable
    [of 7 "[ReserveTexture (Some 1), MarkAsDirty 9, PaintBitmap tex1 5]" 0 0 0]
  by (simp add: tile_defs scmp float_ne_def float_isnan_def float_iszero_def float_one_def)

section \<open>Sequences of markAsDirty\<close>

lemma smax_fold_less:
  "p <s fold smax gs g \<longleftrightarrow> p <s g \<or> (\<exists>h \<in> set gs. p <s h)"
  by (induction gs arbitrary: g) (auto simp add: smax_def scmp)

lemma run_markAsDirty_painted:
  "m_lastPaintedPicture (run this (map MarkAsDirty gs) t) = m_lastPaintedPicture t"
  by (induction gs arbitrary: t) (simp_all add: markAsDirty_eq)

lemma run_markAsDirty_dirty:
  "m_dirty (run this (map MarkAsDirty gs) t)
     \<longleftrightarrow> m_dirty t \<or> (\<exists>h \<in> set gs. m_lastPaintedPicture t <s h)"
  by (induction gs arbitrary: t) (auto simp add: markAsDirty_eq)

text \<open>
  C4, as amended. After a non-empty sequence of \<open>markAsDirty\<close> calls and nothing else,
  \<open>m_lastPaintedPicture\<close> is what it was, and \<open>isDirty\<close> is true if and only if the
  tile was dirty before the sequence or the highest \<open>g\<close> of the sequence exceeds
  \<open>m_lastPaintedPicture\<close>. A freshly constructed tile is dirty, so from there
  \<open>m_lastPaintedPicture\<close> stays 0 and \<open>isDirty\<close> is true after every such sequence.
\<close>

theorem markAsDirty_sequence:
  "m_lastPaintedPicture (run this (map MarkAsDirty (g # gs)) t) = m_lastPaintedPicture t
   \<and> (isDirty (run this (map MarkAsDirty (g # gs)) t)
        \<longleftrightarrow> m_dirty t \<or> m_lastPaintedPicture t <s highest g gs)
   \<and> m_lastPaintedPicture (run this (map MarkAsDirty (g # gs)) (BaseTile_new page x y)) = 0
   \<and> isDirty (run this (map MarkAsDirty (g # gs)) (BaseTile_new page x y))"
proof -
  have d: "isDirty (run this (map MarkAsDirty (g # gs)) s)
        \<longleftrightarrow> m_dirty s \<or> m_lastPaintedPicture s <s highest g gs" for s
    unfolding isDirty_def highest_def run_markAsDirty_dirty smax_fold_less by auto
  have n: "m_dirty (BaseTile_new page x y)" "m_lastPaintedPicture (BaseTile_new page x y) = 0"
    by (simp_all add: BaseTile_new_def)
  show ?thesis
    using d [of t] d [of "BaseTile_new page x y"] n
      run_markAsDirty_painted [of this "g # gs"]
    by simp
qed

theorem markAsDirty_sequence_witness:
  "highest 5 [3] = 5
   \<and> isDirty (run 7 (map MarkAsDirty [5, 3]) (BaseTile_new 0 0 0))
   \<and> m_lastPaintedPicture (run 7 (map MarkAsDirty [5, 3]) tile_painted) = 5
   \<and> \<not> isDirty (run 7 (map MarkAsDirty [5, 3]) tile_painted)
   \<and> highest 3 [6, 4] = 6
   \<and> isDirty (run 7 (map MarkAsDirty [3, 6, 4]) tile_painted)"
  using markAsDirty_sequence [of 7 5 "[3]" tile_painted 0 0 0]
    markAsDirty_sequence [of 7 3 "[6, 4]" tile_painted 0 0 0]
  by (simp add: tile_painted_eq highest_def smax_def scmp)

text \<open>
  C4 as stated fails: after \<open>markAsDirty 0\<close> on a fresh tile the highest \<open>g\<close> seen is 0,
  which does not exceed \<open>m_lastPaintedPicture = 0\<close>, yet \<open>isDirty\<close> is true.
\<close>

theorem markAsDirty_sequence_counterexample:
  "\<not> (isDirty (run 7 (map MarkAsDirty [0]) (BaseTile_new 0 0 0))
        \<longleftrightarrow> m_lastPaintedPicture (run 7 (map MarkAsDirty [0]) (BaseTile_new 0 0 0))
               <s highest 0 [])"
  by (simp add: tile_defs highest_def scmp)

section \<open>The stored m_lastDirtyPicture\<close>

lemma step_lastDirtyPicture:
  "m_lastDirtyPicture (step this op t)
     = (case op of MarkAsDirty g \<Rightarrow> g | _ \<Rightarrow> m_lastDirtyPicture t)"
proof (cases op)
  case (PaintBitmap texs g)
  then show ?thesis
    using paintBitmap_cases [of this texs g t] by (auto simp add: paintBitmap_commit_fields)
qed (simp_all add: reserveTexture_def removeTexture_def setScale_def markAsDirty_eq Let_def)

lemma run_lastDirtyPicture:
  "m_lastDirtyPicture (run this ops t) = last (m_lastDirtyPicture t # dirty_args ops)"
proof (induction ops arbitrary: t)
  case Nil
  show ?case by simp
next
  case (Cons op ops)
  have "m_lastDirtyPicture (run this (op # ops) t)
          = last (m_lastDirtyPicture (step this op t) # dirty_args ops)"
    by (simp add: Cons.IH)
  then show ?case
    unfolding step_lastDirtyPicture by (cases op) simp_all
qed

lemma dirty_args_append: "dirty_args (ops1 @ ops2) = dirty_args ops1 @ dirty_args ops2"
  by (induction ops1 rule: dirty_args.induct) simp_all

text \<open>
  C9, as amended. \<open>m_lastDirtyPicture\<close> is written by \<open>markAsDirty\<close> only, which
  overwrites it with its argument. Over a sequence of operations it never becomes smaller
  than a value it held before, provided the value stored at the start followed by the
  arguments of the \<open>markAsDirty\<close> calls is in non-decreasing order; operations other than
  \<open>markAsDirty\<close> leave it unchanged.
\<close>

theorem lastDirtyPicture_monotone:
  assumes "sorted_wrt (\<le>s) (m_lastDirtyPicture t # dirty_args (ops1 @ ops2))"
  shows "m_lastDirtyPicture (run this ops1 t) \<le>s m_lastDirtyPicture (run this (ops1 @ ops2) t)
   \<and> (dirty_args ops2 = [] \<longrightarrow>
        m_lastDirtyPicture (run this (ops1 @ ops2) t) = m_lastDirtyPicture (run this ops1 t))
   \<and> m_lastDirtyPicture (run this (ops1 @ [MarkAsDirty g]) t) = g"
proof (cases "dirty_args ops2 = []")
  case True
  then show ?thesis
    by (simp add: run_lastDirtyPicture dirty_args_append scmp)
next
  case False
  let ?xs = "m_lastDirtyPicture t # dirty_args ops1"
  from assms have "sorted_wrt (\<le>s) (?xs @ dirty_args ops2)"
    by (simp add: dirty_args_append)
  then have le: "\<forall>a \<in> set ?xs. \<forall>b \<in> set (dirty_args ops2). a \<le>s b"
    unfolding sorted_wrt_append by blast
  have "last ?xs \<in> set ?xs" by (rule last_in_set) simp
  moreover have "last (dirty_args ops2) \<in> set (dirty_args ops2)"
    using False by (rule last_in_set)
  ultimately have "last ?xs \<le>s last (dirty_args ops2)"
    using le by blast
  moreover have "last (?xs @ dirty_args ops2) = last (dirty_args ops2)"
    using False by simp
  moreover have "m_lastDirtyPicture (run this (ops1 @ [MarkAsDirty g]) t) = g"
    by (simp add: run_lastDirtyPicture dirty_args_append)
  ultimately show ?thesis
    using False by (simp add: run_lastDirtyPicture dirty_args_append del: last.simps)
qed

theorem lastDirtyPicture_monotone_witness:
  "sorted_wrt (\<le>s) (m_lastDirtyPicture (BaseTile_new 0 0 0)
      # dirty_args ([MarkAsDirty 3, ReserveTexture (Some 1)]
                    @ [MarkAsDirty 3, PaintBitmap tex1 3, MarkAsDirty 5]))
   \<and> m_lastDirtyPicture (run 7 [MarkAsDirty 3, ReserveTexture (Some 1)] (BaseTile_new 0 0 0)) = 3
   \<and> m_lastDirtyPicture
        (run 7 ([MarkAsDirty 3, ReserveTexture (Some 1)]
                @ [MarkAsDirty 3, PaintBitmap tex1 3, MarkAsDirty 5]) (BaseTile_new 0 0 0)) = 5
   \<and> m_lastDirtyPicture (run 7 [MarkAsDirty 3, ReserveTexture (Some 1)] (BaseTile_new 0 0 0))
       \<le>s m_lastDirtyPicture
        (run 7 ([MarkAsDirty 3, ReserveTexture (Some 1)]
                @ [MarkAsDirty 3, PaintBitmap tex1 3, MarkAsDirty 5]) (BaseTile_new 0 0 0))"
proof -
  have s: "sorted_wrt (\<le>s) (m_lastDirtyPicture (BaseTile_new 0 0 0)
      # dirty_args ([MarkAsDirty 3, ReserveTexture (Some 1)]
                    @ [MarkAsDirty 3, PaintBitmap tex1 3, MarkAsDirty 5]))"
    by (simp add: BaseTile_new_def scmp)
  show ?thesis
    using s lastDirtyPicture_monotone [OF s, of 7]
    by (simp add: tile_defs scmp)
qed

text \<open>
  C9 as stated fails: \<open>markAsDirty 3\<close> after \<open>markAsDirty 5\<close> lowers the stored
  \<open>m_lastDirtyPicture\<close> from 5 to 3.
\<close>

theorem lastDirtyPicture_monotone_counterexample:
  "m_lastDirtyPicture (run 7 [MarkAsDirty 5, MarkAsDirty 3] (BaseTile_new 0 0 0))
     <s m_lastDirtyPicture (run 7 [MarkAsDirty 5] (BaseTile_new 0 0 0))"
  by (simp add: tile_defs scmp)

section \<open>A paint that goes ahead\<close>

lemma paintBitmap_interleaved_Nil:
  "paintBitmap_interleaved this texs g [] t = fst (paintBitmap this texs g t)"
  by (auto simp add: paintBitmap_interleaved_def paintBitmap_def paintBitmap_snapshot_def
      split: option.split)

lemma paintBitmap_interleaved_paints:
  "m_dirty t \<Longrightarrow> m_texture t = Some texture \<Longrightarrow>
   owner (texs texture) = Some this \<Longrightarrow> usedLevel (texs texture) \<le>s 1 \<Longrightarrow>
   paintBitmap_interleaved this texs g mid t = paintBitmap_commit g (run this mid t)"
  by (auto simp add: paintBitmap_interleaved_def paintBitmap_snapshot_def scmp)

lemma step_keeps_dirty:
  "m_dirty t \<Longrightarrow> \<not> is_PaintBitmap op \<Longrightarrow> m_dirty (step this op t)"
  by (cases op)
    (simp_all add: reserveTexture_def removeTexture_def setScale_def markAsDirty_eq Let_def)

lemma run_keeps_dirty:
  "m_dirty t \<Longrightarrow> \<not> list_ex is_PaintBitmap mid \<Longrightarrow> m_dirty (run this mid t)"
  by (induction mid arbitrary: t) (simp_all add: step_keeps_dirty)

text \<open>
  C2, as amended. When the snapshot shows a dirty tile with a texture, and after the
  producer lock the texture's owner is this tile and its used level is at most 1,
  \<open>paintBitmap\<close> stores the picture count \<open>g\<close> reported by the page into
  \<open>m_lastPaintedPicture\<close> and clears the dirty flag exactly when
  \<open>g \<ge> m_lastDirtyPicture\<close>. When calls of the main thread run between the snapshot
  and the commit, the tile is dirty afterwards exactly when the \<open>m_lastDirtyPicture\<close>
  stored at the commit (the argument of the last \<open>markAsDirty\<close> before it, or the value
  stored earlier when there was none) exceeds \<open>g\<close>. In particular a single
  \<open>markAsDirty g'\<close> with \<open>g' > g\<close> before the commit leaves the tile dirty.
\<close>

theorem paintBitmap_commits:
  assumes "m_dirty t" and "m_texture t = Some texture"
    and "owner (texs texture) = Some this" and "usedLevel (texs texture) \<le>s 1"
  shows "m_lastPaintedPicture (fst (paintBitmap this texs g t)) = g
   \<and> (\<not> m_dirty (fst (paintBitmap this texs g t)) \<longleftrightarrow> m_lastDirtyPicture t \<le>s g)
   \<and> m_lastDirtyPicture (fst (paintBitmap this texs g t)) = m_lastDirtyPicture t
   \<and> paintBitmap_interleaved this texs g [] t = fst (paintBitmap this texs g t)
   \<and> (\<forall>mid. \<not> list_ex is_PaintBitmap mid \<longrightarrow>
         m_lastPaintedPicture (paintBitmap_interleaved this texs g mid t) = g
         \<and> m_lastDirtyPicture (paintBitmap_interleaved this texs g mid t)
             = last (m_lastDirtyPicture t # dirty_args mid)
         \<and> (m_dirty (paintBitmap_interleaved this texs g mid t)
              \<longleftrightarrow> g <s last (m_lastDirtyPicture t # dirty_args mid)))
   \<and> (\<forall>g'. g <s g' \<longrightarrow>
         m_dirty (paintBitmap_interleaved this texs g [MarkAsDirty g'] t)
         \<and> m_lastPaintedPicture (paintBitmap_interleaved this texs g [MarkAsDirty g'] t) = g
         \<and> m_lastDirtyPicture (paintBitmap_interleaved this texs g [MarkAsDirty g'] t) = g')"
proof -
  have p: "fst (paintBitmap this texs g t) = paintBitmap_commit g t"
    using assms by (simp add: paintBitmap_paints)
  have i: "paintBitmap_interleaved this texs g mid t
             = paintBitmap_commit g (run this mid t)" for mid
    using assms by (simp add: paintBitmap_interleaved_paints)
  have seq: "m_lastPaintedPicture (fst (paintBitmap this texs g t)) = g
      \<and> (\<not> m_dirty (fst (paintBitmap this texs g t)) \<longleftrightarrow> m_lastDirtyPicture t \<le>s g)
      \<and> m_lastDirtyPicture (fst (paintBitmap this texs g t)) = m_lastDirtyPicture t"
    using assms(1) by (simp add: p paintBitmap_commit_dirty paintBitmap_commit_fields)
  have gen: "m_lastPaintedPicture (paintBitmap_interleaved this texs g mid t) = g
         \<and> m_lastDirtyPicture (paintBitmap_interleaved this texs g mid t)
             = last (m_lastDirtyPicture t # dirty_args mid)
         \<and> (m_dirty (paintBitmap_interleaved this texs g mid t)
              \<longleftrightarrow> g <s last (m_lastDirtyPicture t # dirty_args mid))"
    if "\<not> list_ex is_PaintBitmap mid" for mid
  proof -
    have "m_dirty (run this mid t)"
      using assms(1) that by (rule run_keeps_dirty)
    then show ?thesis
      unfolding i paintBitmap_commit_dirty paintBitmap_commit_fields run_lastDirtyPicture
      by (simp add: scmp not_le del: last.simps)
  qed
  have one: "m_dirty (paintBitmap_interleaved this texs g [MarkAsDirty g'] t)
         \<and> m_lastPaintedPicture (paintBitmap_interleaved this texs g [MarkAsDirty g'] t) = g
         \<and> m_lastDirtyPicture (paintBitmap_interleaved this texs g [MarkAsDirty g'] t) = g'"
    if "g <s g'" for g'
    using gen [of "[MarkAsDirty g']"] that by simp
  show ?thesis
    using seq gen one paintBitmap_interleaved_Nil [of this texs g t] by blast
qed

theorem paintBitmap_commits_witness:
  "m_dirty (markAsDirty 9 tile_painted)
   \<and> m_texture (markAsDirty 9 tile_painted) = Some 1
   \<and> owner (tex1 1) = Some 7
   \<and> usedLevel (tex1 1) \<le>s 1
   \<and> m_lastDirtyPicture (markAsDirty 9 tile_painted) = 9
   \<and> m_lastPaintedPicture (fst (paintBitmap 7 tex1 9 (markAsDirty 9 tile_painted))) = 9
   \<and> \<not> m_dirty (fst (paintBitmap 7 tex1 9 (markAsDirty 9 tile_painted)))
   \<and> m_lastPaintedPicture (fst (paintBitmap 7 tex1 8 (markAsDirty 9 tile_painted))) = 8
   \<and> m_dirty (fst (paintBitmap 7 tex1 8 (markAsDirty 9 tile_painted)))
   \<and> m_dirty (paintBitmap_interleaved 7 tex1 9 [MarkAsDirty 10] (markAsDirty 9 tile_painted))
   \<and> m_lastPaintedPicture
        (paintBitmap_interleaved 7 tex1 9 [MarkAsDirty 10] (markAsDirty 9 tile_painted)) = 9
   \<and> \<not> list_ex is_PaintBitmap [MarkAsDirty 3, SetScale 0x40000000, MarkAsDirty 10]
   \<and> m_dirty (paintBitmap_interleaved 7 tex1 9
        [MarkAsDirty 3, SetScale 0x40000000, MarkAsDirty 10] (markAsDirty 9 tile_painted))"
proof -
  have a: "m_dirty (markAsDirty 9 tile_painted)"
    and b: "m_texture (markAsDirty 9 tile_painted) = Some 1"
    and c: "owner (tex1 1) = Some 7"
    and d: "usedLevel (tex1 1) \<le>s 1"
    and e: "m_lastDirtyPicture (markAsDirty 9 tile_painted) = 9"
    by (simp_all add: tile_painted_eq markAsDirty_eq tex1_def scmp)
  have f: "(9 :: int32) <s 10" "\<not> (9 :: int32) \<le>s 8" "(9 :: int32) \<le>s 9"
    by (simp_all add: scmp)
  have g: "\<not> list_ex is_PaintBitmap [MarkAsDirty 3, SetScale 0x40000000, MarkAsDirty 10]"
    by simp
  have h: "m_dirty (paintBitmap_interleaved 7 tex1 9
        [MarkAsDirty 3, SetScale 0x40000000, MarkAsDirty 10] (markAsDirty 9 tile_painted))"
    using paintBitmap_commits [of "markAsDirty 9 tile_painted" 1 tex1 7 9, OF a b c d] g f
    by simp
  show ?thesis
    using paintBitmap_commits [of "markAsDirty 9 tile_painted" 1 tex1 7 9, OF a b c d]
      paintBitmap_commits [of "markAsDirty 9 tile_painted" 1 tex1 7 8, OF a b c d]
      a b c d e f g h
    by simp
qed

text \<open>
  C2 as stated fails in its last clause: with a paint of picture 9 in flight,
  \<open>markAsDirty 10\<close> followed by \<open>markAsDirty 3\<close> before the commit leaves
  \<open>m_lastDirtyPicture = 3\<close>, and the commit clears the dirty flag although a
  \<open>markAsDirty g'\<close> with \<open>g' > 9\<close> ran before it.
\<close>

theorem paintBitmap_commits_counterexample:
  "m_dirty (markAsDirty 9 tile_painted)
   \<and> m_texture (markAsDirty 9 tile_painted) = Some 1
   \<and> owner (tex1 1) = Some 7
   \<and> usedLevel (tex1 1) \<le>s 1
   \<and> (9 :: int32) <s 10
   \<and> \<not> m_dirty (paintBitmap_interleaved 7 tex1 9 [MarkAsDirty 10, MarkAsDirty 3]
                   (markAsDirty 9 tile_painted))
   \<and> \<not> m_dirty (run 7 [MarkAsDirty 10, MarkAsDirty 3, PaintBitmap tex1 9]
                   (markAsDirty 9 tile_painted))"
  by (simp add: tile_painted_eq tile_defs scmp)

end
